theory Spec2Isabelle
  imports Complex_Main "HOL-Library.Word"
begin

unbundle bit_operations_syntax

section \<open>IR\_PID: a PID hot-plate controller with an infrared sensor decoder\<close>

text \<open>
  A shallow embedding of \<^verbatim>\<open>src/csource/IR_PID/IR_PID.cpp\<close>, an Arduino (AVR) sketch.
  The globals of each module of the sketch are a record; a function that mutates globals
  takes the record and returns it updated.

  Numbers. On the AVR \<^verbatim>\<open>int\<close> has 16 bits, \<^verbatim>\<open>unsigned long\<close> 32 and \<^verbatim>\<open>byte\<close> 8:
  they are words of that width, with wrap-around. The floats of the controller, of
  the heater and of the EEPROM are values of the type \<open>cfloat\<close> below, with both
  zeros, both infinities and NaN; the floats of the sensor sampler, which the code only ever gives finite values other
  than minus zero, are of type \<^typ>\<open>real\<close>. Arithmetic on finite values is
  exact: rounding and overflow are not modelled.

  The clock. \<^verbatim>\<open>millis()\<close> is read several times in one call; each reading is an
  argument of the model, a 32-bit word, in the order of the reads.
\<close>

type_synonym byte = "8 word"
type_synonym int16 = "16 word"
type_synonym uint16 = "16 word"
type_synonym ulong = "32 word"

subsection \<open>Floats\<close>

text \<open>
  The values of a \<^verbatim>\<open>float\<close>: \<open>Fin x\<close> is the finite number \<open>x\<close>, and \<open>Fin 0\<close>
  is plus zero; \<open>NegZero\<close> is minus zero. The operations follow IEEE 754 on the
  special values (NaN in, NaN out; the sign of a zero or of an infinity from the signs
  of the operands; infinity minus infinity, zero times infinity, zero by zero and
  infinity by infinity are NaN) and are exact on the finite ones.
\<close>

datatype cfloat = Fin real | NegZero | PInf | NInf | NaN

fun is_zero :: "cfloat \<Rightarrow> bool" where
  "is_zero (Fin x) = (x = 0)"
| "is_zero NegZero = True"
| "is_zero PInf = False"
| "is_zero NInf = False"
| "is_zero NaN = False"

fun is_inf :: "cfloat \<Rightarrow> bool" where
  "is_inf (Fin x) = False"
| "is_inf NegZero = False"
| "is_inf PInf = True"
| "is_inf NInf = True"
| "is_inf NaN = False"

fun finite_float :: "cfloat \<Rightarrow> bool" where
  "finite_float (Fin x) = True"
| "finite_float NegZero = True"
| "finite_float PInf = False"
| "finite_float NInf = False"
| "finite_float NaN = False"

text \<open>The sign bit, and the number that a finite float stands for.\<close>

fun sign_bit :: "cfloat \<Rightarrow> bool" where
  "sign_bit (Fin x) = (x < 0)"
| "sign_bit NegZero = True"
| "sign_bit PInf = False"
| "sign_bit NInf = True"
| "sign_bit NaN = False"

fun number :: "cfloat \<Rightarrow> real" where
  "number (Fin x) = x"
| "number NegZero = 0"
| "number PInf = 0"
| "number NInf = 0"
| "number NaN = 0"

definition zero_of :: "bool \<Rightarrow> cfloat" where
  "zero_of negative = (if negative then NegZero else Fin 0)"

definition inf_of :: "bool \<Rightarrow> cfloat" where
  "inf_of negative = (if negative then NInf else PInf)"

text \<open>The finite result \<open>r\<close> of an operation; \<open>negative\<close> is the sign of a zero result.\<close>

definition fin_of :: "bool \<Rightarrow> real \<Rightarrow> cfloat" where
  "fin_of negative r = (if r = 0 then zero_of negative else Fin r)"

fun fneg :: "cfloat \<Rightarrow> cfloat" where
  "fneg (Fin x) = (if x = 0 then NegZero else Fin (- x))"
| "fneg NegZero = Fin 0"
| "fneg PInf = NInf"
| "fneg NInf = PInf"
| "fneg NaN = NaN"

definition fadd :: "cfloat \<Rightarrow> cfloat \<Rightarrow> cfloat" where
  "fadd a b =
     (if a = NaN \<or> b = NaN then NaN
      else if is_inf a then (if is_inf b \<and> b \<noteq> a then NaN else a)
      else if is_inf b then b
      else fin_of (a = NegZero \<and> b = NegZero) (number a + number b))"

definition fsub :: "cfloat \<Rightarrow> cfloat \<Rightarrow> cfloat" where
  "fsub a b = fadd a (fneg b)"

definition fmul :: "cfloat \<Rightarrow> cfloat \<Rightarrow> cfloat" where
  "fmul a b =
     (if a = NaN \<or> b = NaN then NaN
      else if is_inf a \<or> is_inf b
      then (if is_zero a \<or> is_zero b then NaN else inf_of (sign_bit a \<noteq> sign_bit b))
      else fin_of (sign_bit a \<noteq> sign_bit b) (number a * number b))"

text \<open>
  Division. A finite dividend other than zero over a zero gives an infinity, a zero over
  a zero gives NaN. \<open>float_div\<close> gives the quotient and says whether the divisor was a
  zero.
\<close>

definition fdiv :: "cfloat \<Rightarrow> cfloat \<Rightarrow> cfloat" where
  "fdiv a b =
     (if a = NaN \<or> b = NaN then NaN
      else if is_inf a then (if is_inf b then NaN else inf_of (sign_bit a \<noteq> sign_bit b))
      else if is_inf b then zero_of (sign_bit a \<noteq> sign_bit b)
      else if is_zero b
      then (if is_zero a then NaN else inf_of (sign_bit a \<noteq> sign_bit b))
      else fin_of (sign_bit a \<noteq> sign_bit b) (number a / number b))"

definition float_div :: "cfloat \<Rightarrow> cfloat \<Rightarrow> cfloat \<times> bool" where
  "float_div a b = (fdiv a b, is_zero b)"

text \<open>
  Comparisons: false as soon as an operand is NaN; the two zeros are equal; minus
  infinity is below and plus infinity above every finite number.
\<close>

fun rank :: "cfloat \<Rightarrow> int" where
  "rank (Fin x) = 0"
| "rank NegZero = 0"
| "rank PInf = 1"
| "rank NInf = - 1"
| "rank NaN = 0"

definition flt :: "cfloat \<Rightarrow> cfloat \<Rightarrow> bool" where
  "flt a b =
     (a \<noteq> NaN \<and> b \<noteq> NaN
      \<and> (rank a < rank b \<or> (rank a = rank b \<and> number a < number b)))"

definition fle :: "cfloat \<Rightarrow> cfloat \<Rightarrow> bool" where
  "fle a b =
     (a \<noteq> NaN \<and> b \<noteq> NaN
      \<and> (rank a < rank b \<or> (rank a = rank b \<and> number a \<le> number b)))"

definition fgt :: "cfloat \<Rightarrow> cfloat \<Rightarrow> bool" where
  "fgt a b = flt b a"

definition fge :: "cfloat \<Rightarrow> cfloat \<Rightarrow> bool" where
  "fge a b = fle b a"

subsection \<open>PID control code\<close>

definition WINDUP_GUARD_GAIN :: cfloat where
  "WINDUP_GUARD_GAIN = Fin 100.0"

record pid_state =
  iState :: cfloat
  lastTemp :: cfloat
  pgain :: cfloat
  igain :: cfloat
  dgain :: cfloat
  pTerm :: cfloat
  iTerm :: cfloat
  dTerm :: cfloat
  pgainAddress :: int16
  igainAddress :: int16
  dgainAddress :: int16

text \<open>
  What a call of \<^verbatim>\<open>updatePID\<close> produces: the value returned, the globals after the
  call, and whether the call evaluated a division whose divisor was zero.
\<close>

record pid_out =
  returned :: cfloat
  pid_after :: pid_state
  zero_divide :: bool

text \<open>The windup clamp, lines 213 to 216.\<close>

definition windup_clamp :: "cfloat \<Rightarrow> cfloat \<Rightarrow> cfloat" where
  "windup_clamp windupGaurd i =
     (if fgt i windupGaurd then windupGaurd
      else if flt i (fneg windupGaurd) then fneg windupGaurd
      else i)"

definition updatePID :: "pid_state \<Rightarrow> cfloat \<Rightarrow> cfloat \<Rightarrow> pid_out" where
  "updatePID s targetTemp curTemp =
     (let error = fsub targetTemp curTemp;
          pT = fmul (pgain s) error;
          i1 = fadd (iState s) error;
          (windupGaurd, dz) = float_div WINDUP_GUARD_GAIN (igain s);
          i2 = windup_clamp windupGaurd i1;
          iT = fmul (igain s) i2;
          dT = fmul (dgain s) (fsub curTemp (lastTemp s));
          s' = s\<lparr>pTerm := pT, iState := i2, iTerm := iT, dTerm := dT, lastTemp := curTemp\<rparr>
      in \<lparr>returned = fsub (fadd pT iT) dT, pid_after = s', zero_divide = dz\<rparr>)"

definition getP :: "pid_state \<Rightarrow> cfloat" where "getP s = pgain s"
definition getI :: "pid_state \<Rightarrow> cfloat" where "getI s = igain s"
definition getD :: "pid_state \<Rightarrow> cfloat" where "getD s = dgain s"

text \<open>A run of \<^verbatim>\<open>updatePID\<close> calls, each with its target and current temperature.\<close>

fun pid_run :: "pid_state \<Rightarrow> (cfloat \<times> cfloat) list \<Rightarrow> pid_state" where
  "pid_run s [] = s"
| "pid_run s ((t, c) # rest) = pid_run (pid_after (updatePID s t c)) rest"

subsection \<open>Heater control\<close>

text \<open>
  \<^verbatim>\<open>relay_writes\<close> is the output of the module: the levels that \<^verbatim>\<open>digitalWrite\<close> has
  put on \<^verbatim>\<open>HEAT_RELAY_PIN\<close>, the oldest first.
\<close>

record heater_state =
  heatcycles :: cfloat
  heaterState :: bool
  heatCurrentTime :: ulong
  heatLastTime :: ulong
  relay_writes :: "bool list"

definition turnHeatElementOnOff :: "bool \<Rightarrow> heater_state \<Rightarrow> heater_state" where
  "turnHeatElementOnOff on h = h\<lparr>relay_writes := relay_writes h @ [on], heaterState := on\<rparr>"

text \<open>
  \<^verbatim>\<open>updateHeater\<close>; \<open>now\<close> is what \<^verbatim>\<open>millis()\<close> returns. The subtraction is the
  unsigned one of the source, modulo \<open>2 ^ 32\<close>; the second comparison converts the
  elapsed time to a float.
\<close>

definition updateHeater :: "ulong \<Rightarrow> heater_state \<Rightarrow> heater_state" where
  "updateHeater now h0 =
     (let h1 = h0\<lparr>heatCurrentTime := now\<rparr>;
          h2 = (if heatCurrentTime h1 - heatLastTime h1 \<ge> 1000
                     \<or> heatLastTime h1 > heatCurrentTime h1
                then (turnHeatElementOnOff True h1)\<lparr>heatLastTime := heatCurrentTime h1\<rparr>
                else h1)
      in if fge (Fin (real (unat (heatCurrentTime h2 - heatLastTime h2)))) (heatcycles h2)
         then turnHeatElementOnOff False h2
         else h2)"

definition setHeatPowerPercentage :: "cfloat \<Rightarrow> heater_state \<Rightarrow> heater_state" where
  "setHeatPowerPercentage p0 h =
     (let p1 = (if fle p0 (Fin 0.0) then Fin 0.0 else p0);
          p2 = (if fge p1 (Fin 1000.0) then Fin 1000.0 else p1)
      in h\<lparr>heatcycles := p2\<rparr>)"

definition getHeatCycles :: "heater_state \<Rightarrow> cfloat" where
  "getHeatCycles h = heatcycles h"

text \<open>A run of \<^verbatim>\<open>updateHeater\<close> calls, one for each clock reading of the list.\<close>

fun heater_run :: "heater_state \<Rightarrow> ulong list \<Rightarrow> heater_state" where
  "heater_run h [] = h"
| "heater_run h (now # rest) = heater_run (updateHeater now h) rest"

subsection \<open>The infrared temperature sensor\<close>

text \<open>
  The globals of the decoder and of the sampler. \<^verbatim>\<open>message\<close> is the memory at the
  array, indexed from its base: the cells 0 to 3 are the array, the others stand for
  the memory around it, which a store through an index outside the array would hit.
\<close>

record sensor_state =
  nbits :: int16
  hexbyte :: byte
  read_byte :: byte
  byte_ready :: int16
  message :: "int \<Rightarrow> byte"
  nbytes :: int16
  message_waiting :: int16
  last_time :: ulong
  consectutive_timeouts :: uint16
  temp :: real
  ambient :: real
  tcSum :: real
  latestReading :: real
  readCount :: int16
  multiplier :: real

text \<open>The globals as their declarations initialise them.\<close>

definition sensor_init :: sensor_state where
  "sensor_init =
     \<lparr>nbits = 0, hexbyte = 0, read_byte = 0, byte_ready = 0, message = (\<lambda>_. 0),
      nbytes = 0, message_waiting = 0, last_time = 0, consectutive_timeouts = 0,
      temp = - 127.0, ambient = 0, tcSum = 0.0, latestReading = 0.0, readCount = 0,
      multiplier = 0\<rparr>"

text \<open>
  \<^verbatim>\<open>int t = message[1]<<8 | message[2]\<close>: both bytes are promoted to the 16-bit
  \<^verbatim>\<open>int\<close>, and \<open>t\<close> is read as a signed value.
\<close>

definition raw_reading :: "byte \<Rightarrow> byte \<Rightarrow> int" where
  "raw_reading hi mid = sint (push_bit 8 (ucast hi :: int16) OR ucast mid)"

text \<open>
  \<^verbatim>\<open>updateTempSensor\<close>; \<open>m1\<close>, \<open>m2\<close> and \<open>m3\<close> are the readings of \<^verbatim>\<open>millis()\<close> at
  the lines 600, 614 and 620. The interrupt routine is taken not to run during the call.
\<close>

definition updateTempSensor :: "ulong \<Rightarrow> ulong \<Rightarrow> ulong \<Rightarrow> sensor_state \<Rightarrow> sensor_state" where
  "updateTempSensor m1 m2 m3 s0 =
     (let s1 = (if message_waiting s0 = 1
                then (let a = s0\<lparr>last_time := m1, consectutive_timeouts := 0\<rparr>;
                          b = (if message a 0 = 0x4c
                               then a\<lparr>temp := real_of_int (raw_reading (message a 1) (message a 2)) / 16.0 - 273.15\<rparr>
                               else if message a 0 = 0x66
                               then a\<lparr>ambient := real_of_int (raw_reading (message a 1) (message a 2)) / 16.0 - 273.15\<rparr>
                               else a)
                      in b\<lparr>message_waiting := 0\<rparr>)
                else s0);
          s2 = s1\<lparr>tcSum := tcSum s1 + temp s1, readCount := readCount s1 + 1\<rparr>
      in if m2 - last_time s2 > 1000
         then s2\<lparr>nbits := 0, nbytes := 0, hexbyte := 0, message_waiting := 0, byte_ready := 0,
                 last_time := m3, consectutive_timeouts := consectutive_timeouts s2 + 1\<rparr>
         else s2)"

text \<open>
  The interrupt routine \<^verbatim>\<open>readBit\<close>; \<open>val\<close> says whether \<^verbatim>\<open>digitalRead(IR_DATA)\<close>
  returned \<^verbatim>\<open>HIGH\<close>. The comparison \<^verbatim>\<open>nbytes < 4\<close> is a signed one.
\<close>

definition readBit :: "bool \<Rightarrow> sensor_state \<Rightarrow> sensor_state" where
  "readBit val d0 =
     (let d1 = d0\<lparr>nbits := nbits d0 + 1\<rparr>;
          bit = (if val then 1 else 0);
          d2 = d1\<lparr>hexbyte := push_bit 1 (hexbyte d1) OR bit\<rparr>
      in if nbits d2 = 8
         then (let d3 = (if byte_ready d2 = 0
                         then d2\<lparr>read_byte := hexbyte d2, byte_ready := 1\<rparr>
                         else d2);
                   d4 = (if hexbyte d3 = 0xd
                         then d3\<lparr>nbytes := 0, message_waiting := 1\<rparr>
                         else if message_waiting d3 = 0
                         then (let d5 = (if nbytes d3 <s 4
                                         then d3\<lparr>message := (message d3)(sint (nbytes d3) := hexbyte d3)\<rparr>
                                         else d3)
                               in d5\<lparr>nbytes := nbytes d5 + 1\<rparr>)
                         else d3)
               in d4\<lparr>hexbyte := 0, nbits := 0\<rparr>)
         else d2)"

definition getFreshTemp :: "sensor_state \<Rightarrow> real \<times> sensor_state" where
  "getFreshTemp s =
     (let s1 = s\<lparr>latestReading := temp s, readCount := 0, tcSum := 0.0\<rparr>
      in (latestReading s1, s1))"

definition getLastTemp :: "sensor_state \<Rightarrow> real" where
  "getLastTemp s = latestReading s"

text \<open>Clock edges in a row, each with the level of the data line, the first edge first.\<close>

fun readBits :: "sensor_state \<Rightarrow> bool list \<Rightarrow> sensor_state" where
  "readBits d [] = d"
| "readBits d (v # vs) = readBits (readBit v d) vs"

text \<open>The eight levels of the data line that send a byte, the most significant bit first.\<close>

definition bits_of :: "byte \<Rightarrow> bool list" where
  "bits_of b = map (\<lambda>i. bit b i) [7, 6, 5, 4, 3, 2, 1, 0]"

subsection \<open>The whole sketch: EEPROM, serial interface, main loop\<close>

text \<open>
  All globals of the sketch. The EEPROM is a map from the address of a four-byte slot to
  the float kept there; the sketch uses the slots 0, 4, 8 and 12, which do not overlap.
  What the sketch prints on the serial line is not modelled: a function that only prints
  leaves the globals as they are.
\<close>

record serial_state =
  incomingByte :: char
  delta :: cfloat
  autoupdate :: bool
  printmode :: bool
  lastUpdateTime :: ulong

record globals =
  targetTemp :: cfloat
  heatPower :: cfloat
  thermo_temp :: real
  lastPIDTime :: ulong
  lastRead :: ulong
  epoch :: ulong
  eeprom :: "int16 \<Rightarrow> cfloat"
  pid :: pid_state
  heater :: heater_state
  serial :: serial_state
  sensor :: sensor_state

definition PGAIN_ADR :: int16 where "PGAIN_ADR = 0"
definition IGAIN_ADR :: int16 where "IGAIN_ADR = 4"
definition DGAIN_ADR :: int16 where "DGAIN_ADR = 8"
definition TEMP_SETTING_ADR :: int16 where "TEMP_SETTING_ADR = 12"
definition PID_UPDATE_INTERVAL :: ulong where "PID_UPDATE_INTERVAL = 200"
definition AUTO_PRINT_INTERVAL :: ulong where "AUTO_PRINT_INTERVAL = 200"
definition MAX_DELTA :: cfloat where "MAX_DELTA = Fin 100"
definition MIN_DELTA :: cfloat where "MIN_DELTA = Fin 0.01"

definition readFloat :: "int16 \<Rightarrow> globals \<Rightarrow> cfloat" where
  "readFloat address g = eeprom g address"

definition writeFloat :: "cfloat \<Rightarrow> int16 \<Rightarrow> globals \<Rightarrow> globals" where
  "writeFloat v address g = g\<lparr>eeprom := (eeprom g)(address := v)\<rparr>"

definition setupPID :: "int16 \<Rightarrow> int16 \<Rightarrow> int16 \<Rightarrow> globals \<Rightarrow> globals" where
  "setupPID padd iadd dadd g =
     g\<lparr>pid := (pid g)\<lparr>pgainAddress := padd, igainAddress := iadd, dgainAddress := dadd,
                       pgain := readFloat padd g, igain := readFloat iadd g,
                       dgain := readFloat dadd g\<rparr>\<rparr>"

definition setP :: "cfloat \<Rightarrow> globals \<Rightarrow> globals" where
  "setP p g = writeFloat p (pgainAddress (pid g)) (g\<lparr>pid := (pid g)\<lparr>pgain := p\<rparr>\<rparr>)"

definition setI :: "cfloat \<Rightarrow> globals \<Rightarrow> globals" where
  "setI i g = writeFloat i (igainAddress (pid g)) (g\<lparr>pid := (pid g)\<lparr>igain := i\<rparr>\<rparr>)"

definition setD :: "cfloat \<Rightarrow> globals \<Rightarrow> globals" where
  "setD d g = writeFloat d (dgainAddress (pid g)) (g\<lparr>pid := (pid g)\<lparr>dgain := d\<rparr>\<rparr>)"

definition setTargetTemp :: "cfloat \<Rightarrow> globals \<Rightarrow> globals" where
  "setTargetTemp t g = writeFloat t TEMP_SETTING_ADR (g\<lparr>targetTemp := t\<rparr>)"

definition getTargetTemp :: "globals \<Rightarrow> cfloat" where
  "getTargetTemp g = targetTemp g"

definition set_delta :: "cfloat \<Rightarrow> globals \<Rightarrow> globals" where
  "set_delta d g = g\<lparr>serial := (serial g)\<lparr>delta := d\<rparr>\<rparr>"

text \<open>
  The body of the \<^verbatim>\<open>while\<close> loop of \<^verbatim>\<open>updateSerialInterface\<close> for one character
  read: the tests of the source, in their order. The characters \<^verbatim>\<open>' '\<close>, \<^verbatim>\<open>'?'\<close> and
  \<^verbatim>\<open>'b'\<close> only print.
\<close>

definition serial_command :: "char \<Rightarrow> globals \<Rightarrow> globals" where
  "serial_command c g0 =
     (let g1 = g0\<lparr>serial := (serial g0)\<lparr>incomingByte := c\<rparr>\<rparr>;
          g2 = (if c = CHR ''R''
                then setTargetTemp (Fin 200.0)
                       (setD (Fin 0.0) (setI (Fin 0.0) (setP (Fin 30.0) g1)))
                else g1);
          g3 = (if c = CHR ''P''
                then setP (fadd (getP (pid g2)) (delta (serial g2))) g2 else g2);
          g4 = (if c = CHR ''p''
                then setP (fsub (getP (pid g3)) (delta (serial g3))) g3 else g3);
          g5 = (if c = CHR ''I''
                then setI (fadd (getI (pid g4)) (delta (serial g4))) g4 else g4);
          g6 = (if c = CHR ''i''
                then setI (fsub (getI (pid g5)) (delta (serial g5))) g5 else g5);
          g7 = (if c = CHR ''D''
                then setD (fadd (getD (pid g6)) (delta (serial g6))) g6 else g6);
          g8 = (if c = CHR ''d''
                then setD (fsub (getD (pid g7)) (delta (serial g7))) g7 else g7);
          g9 = (if c = CHR ''T''
                then setTargetTemp (fadd (getTargetTemp g8) (delta (serial g8))) g8 else g8);
          g10 = (if c = CHR ''t''
                 then setTargetTemp (fsub (getTargetTemp g9) (delta (serial g9))) g9 else g9);
          g11 = (if c = CHR ''+''
                 then (let d = fmul (delta (serial g10)) (Fin 10.0)
                       in set_delta (if fgt d MAX_DELTA then MAX_DELTA else d) g10)
                 else g10);
          g12 = (if c = CHR ''-''
                 then (let d = fdiv (delta (serial g11)) (Fin 10.0)
                       in set_delta (if flt d MIN_DELTA then MIN_DELTA else d) g11)
                 else g11);
          g13 = (if c = CHR ''u''
                 then g12\<lparr>serial := (serial g12)\<lparr>autoupdate := \<not> autoupdate (serial g12)\<rparr>\<rparr>
                 else g12);
          g14 = (if c = CHR ''g''
                 then g13\<lparr>serial := (serial g13)\<lparr>printmode := \<not> printmode (serial g13)\<rparr>\<rparr>
                 else g13)
      in g14)"

text \<open>
  \<^verbatim>\<open>updateSerialInterface\<close>; \<open>input\<close> is what \<^verbatim>\<open>Serial.read()\<close> returns while
  \<^verbatim>\<open>Serial.available()\<close> holds, \<open>m1\<close> and \<open>m2\<close> are the two readings of the clock.
\<close>

definition updateSerialInterface :: "ulong \<Rightarrow> ulong \<Rightarrow> string \<Rightarrow> globals \<Rightarrow> globals" where
  "updateSerialInterface m1 m2 input g0 =
     (let g1 = fold serial_command input g0;
          g2 = (if m1 < lastUpdateTime (serial g1)
                then g1\<lparr>serial := (serial g1)\<lparr>lastUpdateTime := 0\<rparr>\<rparr> else g1)
      in if m2 - lastUpdateTime (serial g2) > AUTO_PRINT_INTERVAL
         then g2\<lparr>serial := (serial g2)\<lparr>lastUpdateTime :=
                    lastUpdateTime (serial g2) + AUTO_PRINT_INTERVAL\<rparr>\<rparr>
         else g2)"

text \<open>The readings of \<^verbatim>\<open>millis()\<close> in one pass of \<^verbatim>\<open>loop\<close>, in the order of the reads.\<close>

record loop_clock =
  at_epoch :: ulong
  at_serial1 :: ulong
  at_serial2 :: ulong
  at_sensor1 :: ulong
  at_sensor2 :: ulong
  at_sensor3 :: ulong
  at_pid1 :: ulong
  at_pid2 :: ulong
  at_heater :: ulong

text \<open>
  The lines 701 to 709 of \<^verbatim>\<open>loop\<close>: the PID update, when it is due, and the power
  command it gives the heater. The reading of the sensor, a finite number, is passed to
  the controller as the float \<open>Fin cur\<close>.
\<close>

definition pid_tick :: "ulong \<Rightarrow> ulong \<Rightarrow> globals \<Rightarrow> globals" where
  "pid_tick m1 m2 g0 =
     (let g1 = (if m1 < lastPIDTime g0 then g0\<lparr>lastPIDTime := 0\<rparr> else g0)
      in if m2 - lastPIDTime g1 > PID_UPDATE_INTERVAL
         then (let g2 = g1\<lparr>lastPIDTime := lastPIDTime g1 + PID_UPDATE_INTERVAL\<rparr>;
                   (cur, sen) = getFreshTemp (sensor g2);
                   out = updatePID (pid g2) (targetTemp g2) (Fin cur);
                   g3 = g2\<lparr>sensor := sen, pid := pid_after out, heatPower := returned out\<rparr>
               in g3\<lparr>heater := setHeatPowerPercentage (heatPower g3) (heater g3)\<rparr>)
         else g1)"

text \<open>The lines 716 to 720: the safety override.\<close>

definition safety_override :: "globals \<Rightarrow> globals" where
  "safety_override g =
     (if consectutive_timeouts (sensor g) > 20
      then g\<lparr>heater := setHeatPowerPercentage (Fin 0) (heater g)\<rparr>
      else g)"

definition loop :: "loop_clock \<Rightarrow> string \<Rightarrow> globals \<Rightarrow> globals" where
  "loop k input g0 =
     (let g1 = g0\<lparr>epoch := at_epoch k div 1000\<rparr>;
          g2 = updateSerialInterface (at_serial1 k) (at_serial2 k) input g1;
          g3 = g2\<lparr>sensor := updateTempSensor (at_sensor1 k) (at_sensor2 k) (at_sensor3 k)
                              (sensor g2)\<rparr>;
          g4 = pid_tick (at_pid1 k) (at_pid2 k) g3;
          g5 = safety_override g4
      in g5\<lparr>heater := updateHeater (at_heater k) (heater g5)\<rparr>)"

subsection \<open>States used as examples\<close>

text \<open>The controller after the serial command \<^verbatim>\<open>R\<close>: gains 30, 0 and 0.\<close>

definition pid_reset :: pid_state where
  "pid_reset =
     \<lparr>iState = Fin 0, lastTemp = Fin 0, pgain = Fin 30.0, igain = Fin 0.0, dgain = Fin 0.0,
      pTerm = Fin 0, iTerm = Fin 0, dTerm = Fin 0,
      pgainAddress = 0, igainAddress = 4, dgainAddress = 8\<rparr>"



text \<open>A heater with no power requested, and one with the power set to 250.\<close>

definition heater_idle :: heater_state where
  "heater_idle =
     \<lparr>heatcycles = Fin 0, heaterState = False, heatCurrentTime = 0, heatLastTime = 0,
      relay_writes = []\<rparr>"

definition heater_250 :: heater_state where
  "heater_250 = heater_idle\<lparr>heatcycles := Fin 250\<rparr>"

text \<open>
  Decoder states: a complete object-temperature frame waiting, a complete ambient frame
  waiting, a frame with an unknown tag waiting, a short frame (two bytes collected)
  one bit before the terminator is complete, and a full buffer one bit before a fifth
  byte is complete.
\<close>

definition sensor_object_frame :: sensor_state where
  "sensor_object_frame =
     sensor_init\<lparr>message := (\<lambda>_. 0)(0 := 0x4c, 1 := 0x10, 2 := 0x00, 3 := 0x00),
                 message_waiting := 1\<rparr>"

definition sensor_ambient_frame :: sensor_state where
  "sensor_ambient_frame =
     sensor_init\<lparr>message := (\<lambda>_. 0)(0 := 0x66, 1 := 0x12, 2 := 0xa0, 3 := 0x00),
                 message_waiting := 1\<rparr>"

definition sensor_unknown_frame :: sensor_state where
  "sensor_unknown_frame =
     sensor_init\<lparr>message := (\<lambda>_. 0)(0 := 0x53, 1 := 0x10, 2 := 0x00, 3 := 0x00),
                 message_waiting := 1, consectutive_timeouts := 3, temp := 25.0,
                 ambient := 21.0\<rparr>"

definition sensor_short_frame :: sensor_state where
  "sensor_short_frame =
     sensor_init\<lparr>message := (\<lambda>_. 0)(0 := 0x4c, 1 := 0x10), nbytes := 2, nbits := 7,
                 hexbyte := 0x06, byte_ready := 1, read_byte := 0x4c\<rparr>"

definition sensor_full_buffer :: sensor_state where
  "sensor_full_buffer =
     sensor_init\<lparr>message := (\<lambda>_. 0)(0 := 0x01, 1 := 0x02, 2 := 0x03, 3 := 0x04),
                 nbytes := 4, nbits := 7, hexbyte := 0x02, byte_ready := 1, read_byte := 0x01\<rparr>"

text \<open>
  The sketch after 21 timeouts in a row, with a last reading of 25 degrees and a target of
  200, and a pass of \<^verbatim>\<open>loop\<close> in which every reading of the clock is 1000.
\<close>

definition serial_init :: serial_state where
  "serial_init =
     \<lparr>incomingByte = CHR 0x00, delta = Fin 1.0, autoupdate = False, printmode = False,
      lastUpdateTime = 0\<rparr>"

definition globals_silent :: globals where
  "globals_silent =
     \<lparr>targetTemp = Fin 200.0, heatPower = Fin 0, thermo_temp = 0, lastPIDTime = 0,
      lastRead = 0, epoch = 0, eeprom = (\<lambda>_. Fin 0), pid = pid_reset, heater = heater_idle,
      serial = serial_init,
      sensor = sensor_init\<lparr>temp := 25.0, consectutive_timeouts := 21\<rparr>\<rparr>"

definition clock_1000 :: loop_clock where
  "clock_1000 =
     \<lparr>at_epoch = 1000, at_serial1 = 1000, at_serial2 = 1000, at_sensor1 = 1000,
      at_sensor2 = 1000, at_sensor3 = 1000, at_pid1 = 1000, at_pid2 = 1000,
      at_heater = 1000\<rparr>"

section \<open>Properties\<close>

lemmas float_defs = fadd_def fsub_def fmul_def fdiv_def float_div_def flt_def fle_def fgt_def
  fge_def fin_of_def zero_of_def inf_of_def

subsection \<open>Floats\<close>

lemma finite_not_NaN: "finite_float a \<Longrightarrow> a \<noteq> NaN"
  by (cases a) auto

text \<open>On finite floats the operations are those of the numbers.\<close>

lemma number_fadd:
  "finite_float a \<Longrightarrow> finite_float b \<Longrightarrow> number (fadd a b) = number a + number b"
  by (cases a; cases b) (auto simp add: float_defs)

lemma number_fsub:
  "finite_float a \<Longrightarrow> finite_float b \<Longrightarrow> number (fsub a b) = number a - number b"
  by (cases a; cases b) (auto simp add: float_defs)

lemma number_fmul:
  "finite_float a \<Longrightarrow> finite_float b \<Longrightarrow> number (fmul a b) = number a * number b"
  by (cases a; cases b) (auto simp add: float_defs)

lemma finite_fadd: "finite_float a \<Longrightarrow> finite_float b \<Longrightarrow> finite_float (fadd a b)"
  by (cases a; cases b) (auto simp add: float_defs)

lemma finite_fsub: "finite_float a \<Longrightarrow> finite_float b \<Longrightarrow> finite_float (fsub a b)"
  by (cases a; cases b) (auto simp add: float_defs)

lemma finite_sum:
  "finite_float a \<Longrightarrow> finite_float t \<Longrightarrow> finite_float c \<Longrightarrow> finite_float (fadd a (fsub t c))"
  by (intro finite_fadd finite_fsub)

subsection \<open>The PID update\<close>

lemma updatePID_gains:
  "pgain (pid_after (updatePID s t c)) = pgain s"
  "igain (pid_after (updatePID s t c)) = igain s"
  "dgain (pid_after (updatePID s t c)) = dgain s"
  by (simp_all add: updatePID_def Let_def split: prod.splits)

lemma updatePID_iState:
  "iState (pid_after (updatePID s t c)) =
     windup_clamp (fst (float_div WINDUP_GUARD_GAIN (igain s))) (fadd (iState s) (fsub t c))"
  by (simp add: updatePID_def Let_def split: prod.splits)

lemma updatePID_returned:
  "returned (updatePID s t c) =
     fsub (fadd (pTerm (pid_after (updatePID s t c))) (iTerm (pid_after (updatePID s t c))))
       (dTerm (pid_after (updatePID s t c)))"
  by (simp add: updatePID_def Let_def split: prod.splits)

text \<open>
  Claim C1. For every target and current temperature and every prior controller state,
  one call of updatePID returns exactly pTerm + iTerm - dTerm, where pTerm is
  pgain * (target - current), iTerm is igain times the accumulator after the clamp,
  and dTerm is dgain * (current - lastTemp) with the lastTemp of before the call; the
  derivative term is subtracted, and lastTemp is then the current temperature. The
  sum, the differences and the products are those of the floats of the program.
\<close>

theorem updatePID_formula:
  "returned (updatePID s t c) =
       fsub (fadd (pTerm (pid_after (updatePID s t c))) (iTerm (pid_after (updatePID s t c))))
         (dTerm (pid_after (updatePID s t c)))
   \<and> pTerm (pid_after (updatePID s t c)) = fmul (pgain s) (fsub t c)
   \<and> iTerm (pid_after (updatePID s t c)) = fmul (igain s) (iState (pid_after (updatePID s t c)))
   \<and> dTerm (pid_after (updatePID s t c)) = fmul (dgain s) (fsub c (lastTemp s))
   \<and> lastTemp (pid_after (updatePID s t c)) = c"
  by (simp add: updatePID_def Let_def split: prod.splits)

text \<open>When the three terms are finite, so is the formula on their numbers.\<close>

lemma updatePID_formula_numbers:
  assumes "finite_float (pTerm (pid_after (updatePID s t c)))"
    and "finite_float (iTerm (pid_after (updatePID s t c)))"
    and "finite_float (dTerm (pid_after (updatePID s t c)))"
  shows "number (returned (updatePID s t c)) =
           number (pTerm (pid_after (updatePID s t c)))
             + number (iTerm (pid_after (updatePID s t c)))
             - number (dTerm (pid_after (updatePID s t c)))"
  using assms by (simp add: updatePID_returned number_fsub number_fadd finite_fadd)


lemma windup_clamp_bounds:
  assumes "w \<noteq> NaN" and "fle (fneg w) w" and "i \<noteq> NaN"
  shows "fle (fneg w) (windup_clamp w i) \<and> fle (windup_clamp w i) w"
  using assms
  by (cases w; cases i) (auto simp add: windup_clamp_def fle_def flt_def fgt_def split: if_splits)

lemma windup_clamp_finite:
  assumes "finite_float w" and "finite_float i"
  shows "finite_float (windup_clamp w i)"
  using assms by (cases w; cases i) (auto simp add: windup_clamp_def)

text \<open>
  With a gain above zero (a finite one, or plus infinity) the windup guard is a finite
  float that is not negative; with the finite gain \<open>g\<close> it is \<open>100 / g\<close>.
\<close>

lemma guard_of_positive_gain:
  assumes "flt (Fin 0) g"
  shows "fst (float_div WINDUP_GUARD_GAIN g) \<noteq> NaN"
    and "fle (fneg (fst (float_div WINDUP_GUARD_GAIN g))) (fst (float_div WINDUP_GUARD_GAIN g))"
    and "finite_float (fst (float_div WINDUP_GUARD_GAIN g))"
  using assms
  by (cases g; auto simp add: float_defs WINDUP_GUARD_GAIN_def split: if_splits)+

lemma guard_of_finite_gain:
  assumes "0 < g"
  shows "fst (float_div WINDUP_GUARD_GAIN (Fin g)) = Fin (100 / g)"
    and "fneg (fst (float_div WINDUP_GUARD_GAIN (Fin g))) = Fin (- (100 / g))"
  using assms by (simp_all add: float_defs WINDUP_GUARD_GAIN_def)




text \<open>
  So the bound holds after each call of every sequence of calls that starts with a
  finite accumulator and passes finite temperatures.
\<close>

lemma pid_run_igain: "igain (pid_run s xs) = igain s"
  by (induction s xs rule: pid_run.induct) (simp_all add: updatePID_gains)

lemma pid_run_snoc: "pid_run s (xs @ [(t, c)]) = pid_after (updatePID (pid_run s xs) t c)"
  by (induction s xs rule: pid_run.induct) simp_all

lemma updatePID_finite_iState:
  assumes "flt (Fin 0) (igain s)" and "finite_float (iState s)"
    and "finite_float t" and "finite_float c"
  shows "finite_float (iState (pid_after (updatePID s t c)))"
  unfolding updatePID_iState
  by (rule windup_clamp_finite
        [OF guard_of_positive_gain(3) [OF assms(1)] finite_sum [OF assms(2,3,4)]])

lemma pid_run_finite_iState:
  assumes "flt (Fin 0) (igain s)" and "finite_float (iState s)"
    and "\<forall>(t, c) \<in> set xs. finite_float t \<and> finite_float c"
  shows "finite_float (iState (pid_run s xs))"
  using assms
proof (induction s xs rule: pid_run.induct)
  case (1 s)
  then show ?case by simp
next
  case (2 s t c rest)
  have "finite_float (iState (pid_after (updatePID s t c)))"
    using 2(2,3,4) by (intro updatePID_finite_iState) auto
  with 2 show ?case by (simp add: updatePID_gains)
qed

lemma finite_run_bounded:
  assumes "flt (Fin 0) (igain s)" and "finite_float (iState s)"
    and "\<forall>(t, c) \<in> set xs. finite_float t \<and> finite_float c" and "xs \<noteq> []"
  shows "fle (fneg (fst (float_div WINDUP_GUARD_GAIN (igain s)))) (iState (pid_run s xs))
         \<and> fle (iState (pid_run s xs)) (fst (float_div WINDUP_GUARD_GAIN (igain s)))"
proof -
  from \<open>xs \<noteq> []\<close> obtain ys t c where xs: "xs = ys @ [(t, c)]"
    by (cases xs rule: rev_cases) auto
  have g: "flt (Fin 0) (igain (pid_run s ys))"
    using assms(1) by (simp add: pid_run_igain)
  have f: "finite_float (iState (pid_run s ys))"
    using assms(1,2,3) by (intro pid_run_finite_iState) (auto simp add: xs)
  have tc: "finite_float t" "finite_float c"
    using assms(3) by (auto simp add: xs)
  have n: "fadd (iState (pid_run s ys)) (fsub t c) \<noteq> NaN"
    by (rule finite_not_NaN [OF finite_sum [OF f tc]])
  have i: "iState (pid_run s xs) =
             windup_clamp (fst (float_div WINDUP_GUARD_GAIN (igain s)))
               (fadd (iState (pid_run s ys)) (fsub t c))"
    by (simp add: xs pid_run_snoc updatePID_iState pid_run_igain)
  note w = guard_of_positive_gain [OF assms(1)]
  show ?thesis
    unfolding i by (rule windup_clamp_bounds [OF w(1) w(2) n])
qed

text \<open>
  Claim C3, as stated: with an integral gain of exactly 0, updatePID does not evaluate
  WINDUP_GUARD_GAIN / igain, the division being guarded against a zero divisor. The
  source has no such guard (line 211 divides on every call): in the state that the
  serial command R leaves, the call divides by zero.
\<close>

theorem zero_igain_divides_counterexample:
  "igain pid_reset = Fin 0 \<and> zero_divide (updatePID pid_reset (Fin 200) (Fin 25))"
  by (simp add: pid_reset_def updatePID_def Let_def float_div_def)

lemma updatePID_zero_divide: "zero_divide (updatePID s t c) = is_zero (igain s)"
  by (simp add: updatePID_def Let_def float_div_def)

lemma plus_zero_gain:
  assumes "igain s = Fin 0" and "finite_float (fadd (iState s) (fsub t c))"
  shows "iState (pid_after (updatePID s t c)) = fadd (iState s) (fsub t c)"
    and "is_zero (iTerm (pid_after (updatePID s t c)))"
  using assms
  by (cases "fadd (iState s) (fsub t c)";
      simp add: updatePID_def Let_def windup_clamp_def float_defs WINDUP_GUARD_GAIN_def)+

text \<open>
  With the gain minus zero the quotient is minus infinity: the first test of the clamp
  holds for every finite accumulator, which becomes minus infinity, and the integral
  term is NaN. With a NaN accumulator the integral term is NaN for both zeros.
\<close>

lemma minus_zero_gain:
  assumes "igain s = NegZero" and "finite_float (fadd (iState s) (fsub t c))"
  shows "iState (pid_after (updatePID s t c)) = NInf"
    and "iTerm (pid_after (updatePID s t c)) = NaN"
  using assms
  by (cases "fadd (iState s) (fsub t c)";
      simp add: updatePID_def Let_def windup_clamp_def float_defs WINDUP_GUARD_GAIN_def)+

lemma zero_gain_NaN_accumulator:
  assumes "is_zero (igain s)" and "fadd (iState s) (fsub t c) = NaN"
  shows "iState (pid_after (updatePID s t c)) = NaN"
    and "iTerm (pid_after (updatePID s t c)) = NaN"
  using assms
  by (simp_all add: updatePID_def Let_def windup_clamp_def float_defs)

text \<open>
  Claim C3, amended. updatePID divides WINDUP_GUARD_GAIN by igain on every call, with
  no guard, so the division runs with a zero divisor exactly when igain is a zero. With
  igain plus zero (the 0.0 that the serial command R stores) and a finite accumulator
  at line 202 (the old iState plus the error), the quotient is plus infinity, neither
  branch of the clamp is taken, and the clamp is in effect disabled: the accumulator
  after the call is that sum, and the integral term is zero.
\<close>

theorem updatePID_zero_igain:
  "zero_divide (updatePID s t c) = is_zero (igain s)
   \<and> (igain s = Fin 0 \<and> finite_float (fadd (iState s) (fsub t c)) \<longrightarrow>
        iState (pid_after (updatePID s t c)) = fadd (iState s) (fsub t c)
        \<and> is_zero (iTerm (pid_after (updatePID s t c))))"
  using updatePID_zero_divide [of s t c] plus_zero_gain [of s t c] by blast

theorem updatePID_zero_igain_witness:
  "igain pid_reset = Fin 0
   \<and> finite_float (fadd (iState pid_reset) (fsub (Fin 200) (Fin 25)))
   \<and> zero_divide (updatePID pid_reset (Fin 200) (Fin 25))
   \<and> iState (pid_after (updatePID pid_reset (Fin 200) (Fin 25))) = Fin 175
   \<and> iTerm (pid_after (updatePID pid_reset (Fin 200) (Fin 25))) = Fin 0"
  using updatePID_zero_igain [of pid_reset "Fin 200" "Fin 25"]
  by (simp add: pid_reset_def float_defs;
      simp add: updatePID_def Let_def windup_clamp_def float_defs WINDUP_GUARD_GAIN_def)

subsection \<open>The heater\<close>

lemma elapsed_nonneg: "0 \<le> (unsigned (w :: ulong) :: real)"
proof -
  have "0 \<le> real (unat w)" by (rule of_nat_0_le_iff)
  then show ?thesis by (simp only: of_nat_unat)
qed

lemma elapsed_ge_250: "(250 \<le> (unsigned (w :: ulong) :: real)) = (250 \<le> w)"
proof -
  have "(250 \<le> real (unat w)) = (250 \<le> unat w)" by linarith
  also have "\<dots> = (250 \<le> w)" by (simp add: word_le_nat_alt)
  finally show ?thesis by (simp only: of_nat_unat)
qed

lemma updateHeater_heatcycles: "heatcycles (updateHeater now h) = heatcycles h"
  by (simp add: updateHeater_def Let_def turnHeatElementOnOff_def)

lemma zero_below_elapsed:
  assumes "is_zero p"
  shows "fge (Fin (real (unat (w :: ulong)))) p"
  using assms elapsed_nonneg [of w] by (cases p) (simp_all add: fge_def fle_def)

lemma zero_below_zero:
  assumes "is_zero p"
  shows "fge (Fin 0) p"
  using assms by (cases p) (simp_all add: fge_def fle_def)

lemma updateHeater_off:
  assumes "is_zero (heatcycles h)"
  shows "heaterState (updateHeater now h) = False"
  using assms zero_below_elapsed [of "heatcycles h"] zero_below_zero [of "heatcycles h"]
  by (simp add: updateHeater_def Let_def turnHeatElementOnOff_def)

lemma updateHeater_off_writes:
  assumes "is_zero (heatcycles h)"
  shows "relay_writes (updateHeater now h) =
           relay_writes h @ (if now - heatLastTime h \<ge> 1000 \<or> heatLastTime h > now
                             then [True, False] else [False])"
  using assms zero_below_elapsed [of "heatcycles h"] zero_below_zero [of "heatcycles h"]
  by (simp add: updateHeater_def Let_def turnHeatElementOnOff_def)

lemma setHeatPowerPercentage_zero: "heatcycles (setHeatPowerPercentage (Fin 0) h) = Fin 0"
  by (simp add: setHeatPowerPercentage_def fle_def fge_def)

text \<open>
  The stored power is within 0 and 1000 unless the power given is NaN, which fails both
  tests of \<^verbatim>\<open>setHeatPowerPercentage\<close> and is stored as it is.
\<close>

lemma setHeatPowerPercentage_range:
  assumes "p \<noteq> NaN"
  shows "fle (Fin 0) (heatcycles (setHeatPowerPercentage p h))
         \<and> fle (heatcycles (setHeatPowerPercentage p h)) (Fin 1000)"
  using assms by (cases p) (auto simp add: setHeatPowerPercentage_def Let_def fle_def fge_def)

lemma setHeatPowerPercentage_NaN: "heatcycles (setHeatPowerPercentage NaN h) = NaN"
  by (simp add: setHeatPowerPercentage_def Let_def fle_def fge_def)

text \<open>
  Claim C10. Whenever the stored heat power heatcycles is 0 (plus zero, which is what
  setHeatPowerPercentage stores, or minus zero), every call of updateHeater leaves the heater output off on return, for every clock value: at a window boundary
  (or a detected wrap) the call first writes the output high and then, the elapsed time
  being at least 0, writes it low again; otherwise it only writes it low.
\<close>

theorem zero_power_leaves_heater_off:
  assumes "is_zero (heatcycles h)"
  shows "heaterState (updateHeater now h) = False
         \<and> relay_writes (updateHeater now h) =
             relay_writes h @ (if now - heatLastTime h \<ge> 1000 \<or> heatLastTime h > now
                               then [True, False] else [False])"
  using assms updateHeater_off [of h now] updateHeater_off_writes [of h now] by simp

theorem zero_power_leaves_heater_off_witness:
  "heatcycles heater_idle = Fin 0 \<and> is_zero (heatcycles heater_idle)
   \<and> heaterState (updateHeater 1000 heater_idle) = False
   \<and> relay_writes (updateHeater 1000 heater_idle) = [True, False]"
  using zero_power_leaves_heater_off [of heater_idle 1000]
  by (simp add: heater_idle_def)

lemma window_start:
  assumes "heatcycles h = Fin 250" and "S - heatLastTime h \<ge> 1000 \<or> heatLastTime h > S"
  shows "heaterState (updateHeater S h) = True"
    and "heatLastTime (updateHeater S h) = S"
    and "heatcycles (updateHeater S h) = Fin 250"
  using assms
  by (auto simp add: updateHeater_def Let_def turnHeatElementOnOff_def fge_def fle_def)

lemma in_window:
  assumes "heatcycles h = Fin 250" and "heatLastTime h \<le> now"
    and "now - heatLastTime h < 1000"
  shows "heaterState (updateHeater now h) =
           (if now - heatLastTime h \<ge> 250 then False else heaterState h)"
    and "heatLastTime (updateHeater now h) = heatLastTime h"
    and "heatcycles (updateHeater now h) = Fin 250"
  using assms
  by (auto simp add: updateHeater_def Let_def turnHeatElementOnOff_def fge_def fle_def
        elapsed_ge_250)

lemma run_in_window:
  assumes "heatcycles h = Fin 250" and "heatLastTime h = S"
    and "\<forall>t \<in> set ts. S \<le> t \<and> t - S < 1000"
    and "sorted (p # ts)" and "S \<le> p" and "heaterState h = (p - S < 250)"
  shows "heaterState (heater_run h ts) = (last (p # ts) - S < 250)
         \<and> heatLastTime (heater_run h ts) = S \<and> heatcycles (heater_run h ts) = Fin 250"
  using assms
proof (induction ts arbitrary: h p)
  case Nil
  then show ?case by simp
next
  case (Cons t ts)
  have w: "heatLastTime h \<le> t" "t - heatLastTime h < 1000"
    using Cons.prems by simp_all
  note step = in_window [OF Cons.prems(1) w]
  have "S \<le> p" "p \<le> t" using Cons.prems by simp_all
  then have mono: "p - S \<le> t - S" by unat_arith
  have st: "heaterState (updateHeater t h) = (t - S < 250)"
    using step(1) Cons.prems mono by (auto simp: not_le)
  have "heaterState (heater_run (updateHeater t h) ts) = (last (t # ts) - S < 250)
         \<and> heatLastTime (heater_run (updateHeater t h) ts) = S
         \<and> heatcycles (heater_run (updateHeater t h) ts) = Fin 250"
    using Cons.prems step st by (intro Cons.IH) auto
  then show ?case by simp
qed

text \<open>
  Claim C8, as stated: with the power at 250 the output is high for the first 250 ms of
  each 1000 ms window and low for the remaining 750 ms, also in a window in which the
  millisecond counter wraps. A window starts at \<open>2 ^ 32 - 500\<close>; the output is switched
  off 250 ms later; at the wrap, 500 ms into the window, the call sees a clock below the
  window start, begins a new window and switches the output on again.
\<close>

theorem wrap_inside_window_counterexample:
  "heatLastTime (heater_run heater_250 [4294966796]) = 4294966796
   \<and> heaterState (heater_run heater_250 [4294966796, 4294967046]) = False
   \<and> (0 :: ulong) - 4294966796 = 500
   \<and> heaterState (heater_run heater_250 [4294966796, 4294967046, 0]) = True"
  by (simp add: heater_250_def heater_idle_def updateHeater_def Let_def
        turnHeatElementOnOff_def fge_def fle_def)

text \<open>
  Claim C8, amended. With the stored power at 250: a call at a window boundary (1000 ms
  or more since the window start) or at a detected wrap (clock below the window start)
  sets the output high and makes the clock reading \<open>S\<close> the new window start; through
  the following calls of that window, as long as the counter does not wrap (the readings
  \<open>ts\<close> are in order, from \<open>S\<close> on, less than 1000 ms after it), the window start stays
  \<open>S\<close> and the output is high while less than 250 ms have elapsed and low from 250 ms
  on. A window in which the counter wraps is cut short at the wrap, where a new window
  begins.
\<close>

theorem duty_cycle_250_in_window:
  assumes "heatcycles h = Fin 250"
    and "S - heatLastTime h \<ge> 1000 \<or> heatLastTime h > S"
    and "sorted (S # ts)"
    and "\<forall>t \<in> set ts. t - S < 1000"
  shows "heaterState (heater_run h (S # ts)) = (last (S # ts) - S < 250)
         \<and> heatLastTime (heater_run h (S # ts)) = S"
proof -
  note start = window_start [OF assms(1,2)]
  have inw: "\<forall>t \<in> set ts. S \<le> t \<and> t - S < 1000"
    using assms(3,4) by simp
  have "heaterState (heater_run (updateHeater S h) ts) = (last (S # ts) - S < 250)
         \<and> heatLastTime (heater_run (updateHeater S h) ts) = S
         \<and> heatcycles (heater_run (updateHeater S h) ts) = Fin 250"
    using start inw assms(3) by (intro run_in_window) simp_all
  then show ?thesis by simp
qed

theorem duty_cycle_250_in_window_witness:
  "heatcycles heater_250 = Fin 250
   \<and> ((5000 :: ulong) - heatLastTime heater_250 \<ge> 1000 \<or> heatLastTime heater_250 > 5000)
   \<and> sorted [5000 :: ulong, 5100, 5249]
   \<and> heaterState (heater_run heater_250 [5000, 5100, 5249]) = True
   \<and> sorted [5000 :: ulong, 5100, 5250, 5999]
   \<and> heaterState (heater_run heater_250 [5000, 5100, 5250, 5999]) = False
   \<and> heatLastTime (heater_run heater_250 [5000, 5100, 5250, 5999]) = 5000"
  using duty_cycle_250_in_window [of heater_250 5000 "[5100, 5249]"]
    duty_cycle_250_in_window [of heater_250 5000 "[5100, 5250, 5999]"]
  by (simp add: heater_250_def heater_idle_def)

subsection \<open>The sensor sampler\<close>

lemma uint_byte_less: "uint (b :: byte) < 256"
  using uint_bounded [of b] by simp

lemma uint_ucast_byte: "uint (ucast (b :: byte) :: int16) = uint b"
proof -
  have "take_bit 16 (uint b) = uint b"
    by (rule take_bit_int_eq_self) (use uint_byte_less [of b] in simp_all)
  then show ?thesis by (simp add: unsigned_ucast_eq)
qed

lemma uint_shifted_byte: "uint (push_bit 8 (ucast (b :: byte) :: int16)) = 256 * uint b"
proof -
  have "take_bit 16 (256 * uint b) = 256 * uint b"
    by (rule take_bit_int_eq_self) (use uint_byte_less [of b] in simp_all)
  then show ?thesis
    by (simp add: uint_word_ariths uint_ucast_byte push_bit_eq_mult take_bit_eq_mod mult.commute)
qed

lemma uint_raw:
  "uint (push_bit 8 (ucast (hi :: byte) :: int16) OR ucast (mid :: byte))
     = 256 * uint hi + uint mid"
proof -
  have "push_bit 8 (ucast hi :: int16) + ucast mid = push_bit 8 (ucast hi) OR ucast mid"
  proof (rule disjunctive_add)
    fix n
    show "\<not> bit (push_bit 8 (ucast hi :: int16)) n \<or> \<not> bit (ucast mid :: int16) n"
      by (cases "n < 8") (auto simp add: bit_simps dest: bit_imp_le_length)
  qed
  then have "uint (push_bit 8 (ucast hi :: int16) OR ucast mid)
           = uint (push_bit 8 (ucast hi :: int16) + ucast mid)"
    by simp
  also have "\<dots> = (256 * uint hi + uint mid) mod 2 ^ 16"
    by (simp only: uint_word_ariths uint_shifted_byte uint_ucast_byte) simp
  also have "\<dots> = 256 * uint hi + uint mid"
    using uint_byte_less [of hi] uint_byte_less [of mid] by simp
  finally show ?thesis .
qed

text \<open>
  With a high byte below \<open>0x80\<close> the raw reading is the 16-bit magnitude of the two
  bytes. From \<open>0x80\<close> on the sign bit of the 16-bit \<^verbatim>\<open>int\<close> is set and the reading
  is negative.
\<close>

lemma raw_reading_magnitude:
  assumes "hi < 0x80"
  shows "raw_reading hi mid = 256 * uint hi + uint mid"
proof -
  have hi: "uint hi < 128" using assms by (simp add: word_less_def)
  have "- (2 ^ 15) \<le> (0 :: int)" by simp
  also have "0 \<le> 256 * uint hi + uint mid" by simp
  finally have lo: "- (2 ^ 15) \<le> 256 * uint hi + uint mid" .
  have up: "256 * uint hi + uint mid < 2 ^ 15"
    using hi uint_byte_less [of mid] by simp
  have "signed_take_bit 15 (256 * uint hi + uint mid) = 256 * uint hi + uint mid"
    using lo up by (rule signed_take_bit_int_eq_self)
  then show ?thesis
    by (simp add: raw_reading_def sint_uint uint_raw)
qed

lemma raw_reading_sign_bit: "raw_reading 0x80 0x00 = - 32768"
  by (simp add: raw_reading_def)

text \<open>
  Claim C5. When a waiting message has the channel tag 0x4c, updateTempSensor sets the
  object temperature to (message[1]<<8 | message[2]) / 16.0 - 273.15, the shift and the
  disjunction being those of the 16-bit int of the source; with the tag 0x66 it sets
  the ambient temperature so; the frame {0x4c, 0x10, 0x00, 0x00} decodes to -17.15.
\<close>

theorem frame_decodes_to_celsius:
  "(message_waiting s = 1 \<and> message s 0 = 0x4c \<longrightarrow>
      temp (updateTempSensor m1 m2 m3 s)
        = real_of_int (sint (push_bit 8 (ucast (message s 1) :: int16) OR ucast (message s 2)))
            / 16.0 - 273.15)
   \<and> (message_waiting s = 1 \<and> message s 0 = 0x66 \<longrightarrow>
      ambient (updateTempSensor m1 m2 m3 s)
        = real_of_int (sint (push_bit 8 (ucast (message s 1) :: int16) OR ucast (message s 2)))
            / 16.0 - 273.15)
   \<and> (message_waiting s = 1 \<and> message s 0 = 0x4c \<and> message s 1 = 0x10 \<and> message s 2 = 0x00
        \<and> message s 3 = 0x00 \<longrightarrow>
      temp (updateTempSensor m1 m2 m3 s) = - 17.15)"
  by (simp add: updateTempSensor_def Let_def raw_reading_def)

theorem frame_decodes_to_celsius_witness:
  "message_waiting sensor_object_frame = 1 \<and> message sensor_object_frame 0 = 0x4c
   \<and> message sensor_object_frame 1 = 0x10 \<and> message sensor_object_frame 2 = 0x00
   \<and> message sensor_object_frame 3 = 0x00
   \<and> temp (updateTempSensor 5000 5000 5000 sensor_object_frame) = - 17.15
   \<and> message_waiting sensor_ambient_frame = 1 \<and> message sensor_ambient_frame 0 = 0x66
   \<and> ambient (updateTempSensor 5000 5000 5000 sensor_ambient_frame) = 24.85"
  using frame_decodes_to_celsius [of sensor_object_frame 5000 5000 5000]
    frame_decodes_to_celsius [of sensor_ambient_frame 5000 5000 5000]
  by (simp add: sensor_object_frame_def sensor_ambient_frame_def sensor_init_def)

text \<open>The same with the magnitude of the two bytes, for high bytes below \<open>0x80\<close>.\<close>

lemma object_frame_magnitude:
  assumes "message_waiting s = 1" and "message s 0 = 0x4c" and "message s 1 < 0x80"
  shows "temp (updateTempSensor m1 m2 m3 s)
           = real_of_int (256 * uint (message s 1) + uint (message s 2)) / 16.0 - 273.15"
  using assms raw_reading_magnitude [of "message s 1" "message s 2"]
  by (simp add: updateTempSensor_def Let_def)

text \<open>
  Claim C9. If updateTempSensor runs while a message is waiting whose channel tag is
  neither 0x4c nor 0x66, the object and the ambient temperature are left unchanged, and
  the frame is consumed like a valid one: the message-waiting flag is cleared, the time
  of the last frame is the clock reading of line 600, and the consecutive-timeout counter
  is 0. The last two are what the lines 600 and 601 store; they are also the values on
  return when the timeout test of line 614 does not fire in the same call, that is when
  the clock reading of line 614 is at most 1000 ms after the one of line 600.
\<close>

theorem unknown_tag_frame_consumed:
  assumes "message_waiting s = 1" and "message s 0 \<noteq> 0x4c" and "message s 0 \<noteq> 0x66"
  shows "temp (updateTempSensor m1 m2 m3 s) = temp s
       \<and> ambient (updateTempSensor m1 m2 m3 s) = ambient s
       \<and> message_waiting (updateTempSensor m1 m2 m3 s) = 0
       \<and> (m2 - m1 \<le> 1000 \<longrightarrow>
            last_time (updateTempSensor m1 m2 m3 s) = m1
            \<and> consectutive_timeouts (updateTempSensor m1 m2 m3 s) = 0)"
  using assms by (auto simp add: updateTempSensor_def Let_def)

theorem unknown_tag_frame_consumed_witness:
  "message_waiting sensor_unknown_frame = 1
   \<and> message sensor_unknown_frame 0 \<noteq> 0x4c \<and> message sensor_unknown_frame 0 \<noteq> 0x66
   \<and> (5001 :: ulong) - 5000 \<le> 1000
   \<and> temp (updateTempSensor 5000 5001 5001 sensor_unknown_frame) = 25
   \<and> ambient (updateTempSensor 5000 5001 5001 sensor_unknown_frame) = 21
   \<and> message_waiting (updateTempSensor 5000 5001 5001 sensor_unknown_frame) = 0
   \<and> last_time (updateTempSensor 5000 5001 5001 sensor_unknown_frame) = 5000
   \<and> consectutive_timeouts (updateTempSensor 5000 5001 5001 sensor_unknown_frame) = 0"
  using unknown_tag_frame_consumed [of sensor_unknown_frame 5000 5001 5001]
  by (simp add: sensor_unknown_frame_def sensor_init_def)

subsection \<open>The bitstream decoder\<close>

lemma readBit_shift:
  assumes "nbits d + 1 \<noteq> 8"
  shows "readBit v d =
           d\<lparr>nbits := nbits d + 1,
              hexbyte := push_bit 1 (hexbyte d) OR (if v then 1 else 0)\<rparr>"
  using assms by (simp add: readBit_def Let_def)

lemma readBit_terminator:
  assumes "nbits d = 7" and "push_bit 1 (hexbyte d) OR (if val then 1 else 0) = 0xd"
  shows "nbytes (readBit val d) = 0" and "message_waiting (readBit val d) = 1"
  using assms by (simp_all add: readBit_def Let_def)

lemma byte_256: "(256 :: byte) = 0"
  by simp

lemma shifted_out:
  "push_bit 1 (push_bit 1 (push_bit 1 (push_bit 1
     (push_bit 1 (push_bit 1 (push_bit 1 (push_bit 1 (x :: byte))))) OR 1) OR 1)) OR 1 = 0xd"
  unfolding push_bit_or push_bit_push_bit by (simp add: byte_256)

text \<open>
  Claim C6. For every decoder state, when the bit accumulator completes a byte equal to
  the frame terminator 0x0D, whatever the number of bytes collected since the last
  frame, readBit resets the byte index to 0 and raises the message-waiting flag. The
  byte is complete at the eighth bit (nbits is 7 before the call), and it is the
  accumulator shifted left by one with the new bit in the lowest place.
\<close>

theorem terminator_completes_message:
  assumes "nbits d = 7" and "push_bit 1 (hexbyte d) OR (if val then 1 else 0) = 0xd"
  shows "nbytes (readBit val d) = 0 \<and> message_waiting (readBit val d) = 1"
  using assms by (simp add: readBit_def Let_def)

theorem terminator_completes_message_witness:
  "nbits sensor_short_frame = 7 \<and> nbytes sensor_short_frame = 2
   \<and> push_bit 1 (hexbyte sensor_short_frame) OR (if True then 1 else 0) = 0xd
   \<and> nbytes (readBit True sensor_short_frame) = 0
   \<and> message_waiting (readBit True sensor_short_frame) = 1"
  using terminator_completes_message [of sensor_short_frame True]
  by (simp add: sensor_short_frame_def sensor_init_def)

text \<open>
  The same for the eight clock edges of a terminator byte, from any state between two
  bytes, and for a short frame (two bytes and the terminator) after a reset.
\<close>

lemma terminator_byte:
  assumes "nbits d = 0"
  shows "nbytes (readBits d (bits_of 0xd)) = 0
         \<and> message_waiting (readBits d (bits_of 0xd)) = 1"
proof -
  define d7 where "d7 = readBits d [False, False, False, False, True, True, False]"
  have n: "nbits d7 = 7"
    using assms by (simp add: d7_def readBit_shift)
  have h: "push_bit 1 (hexbyte d7) OR (if True then 1 else 0) = 0xd"
    using assms shifted_out [of "hexbyte d"] by (simp add: d7_def readBit_shift)
  have "readBits d (bits_of 0xd) = readBit True d7"
    by (simp add: bits_of_def d7_def)
  with readBit_terminator [OF n h] show ?thesis by simp
qed

lemma short_frame_example:
  "message_waiting (readBits sensor_init (bits_of 0x4c @ bits_of 0x10 @ bits_of 0xd)) = 1
   \<and> nbytes (readBits sensor_init (bits_of 0x4c @ bits_of 0x10 @ bits_of 0xd)) = 0"
  by code_simp

lemma readBit_message_cases:
  "message (readBit val d) = message d
   \<or> (sint (nbytes d) < 4
       \<and> message (readBit val d) =
           (message d)(sint (nbytes d) := push_bit 1 (hexbyte d) OR (if val then 1 else 0)))"
  by (simp add: readBit_def Let_def word_sless_alt)

text \<open>
  As long as the 16-bit byte count does not wrap, it is never negative, and no store of
  the decoder falls outside the four cells of the array.
\<close>

lemma sint_succ:
  assumes "0 \<le> sint (n :: int16)" and "sint n < 32767"
  shows "sint (n + 1) = sint n + 1"
proof -
  have "signed_take_bit 15 (sint n + 1) = sint n + 1"
    by (rule signed_take_bit_int_eq_self) (use assms in simp_all)
  then show ?thesis by (simp add: sint_word_ariths)
qed

lemma readBit_nbytes_cases:
  "nbytes (readBit v d) = nbytes d \<or> nbytes (readBit v d) = 0
   \<or> nbytes (readBit v d) = nbytes d + 1"
  by (simp add: readBit_def Let_def)

lemma readBit_nbytes_nonneg:
  assumes "0 \<le> sint (nbytes d)" and "sint (nbytes d) < 32767"
  shows "0 \<le> sint (nbytes (readBit v d))
         \<and> sint (nbytes (readBit v d)) \<le> sint (nbytes d) + 1"
  using readBit_nbytes_cases [of v d] sint_succ [OF assms] assms by auto

lemma readBits_stores_in_array:
  assumes "0 \<le> sint (nbytes d)" and "sint (nbytes d) + int (length vs) \<le> 32767"
    and "i < 0 \<or> 3 < i"
  shows "message (readBits d vs) i = message d i"
  using assms
proof (induction vs arbitrary: d)
  case Nil
  then show ?case by simp
next
  case (Cons v vs)
  have lt: "sint (nbytes d) < 32767" using Cons.prems by simp
  note nn = readBit_nbytes_nonneg [OF Cons.prems(1) lt, of v]
  have m: "message (readBit v d) i = message d i"
    using readBit_message_cases [of v d] Cons.prems by auto
  have "message (readBits (readBit v d) vs) i = message (readBit v d) i"
    using nn Cons.prems by (intro Cons.IH) auto
  with m show ?case by simp
qed

text \<open>
  Claim C7, as stated: through every sequence of clock edges \<^verbatim>\<open>nbytes\<close> never
  exceeds 4. After a reset, the forty clock edges of five zero bytes leave it at 5.
\<close>

theorem nbytes_exceeds_four_counterexample:
  "nbytes (readBits sensor_init (replicate 40 False)) = 5
   \<and> \<not> sint (nbytes (readBits sensor_init (replicate 40 False))) \<le> 4"
  by code_simp

text \<open>
  Claim C7, amended. For every clock edge, in every decoder state with a byte count that
  is not negative: readBit stores into the message buffer only at the index nbytes and
  only while nbytes is below 4, so the buffer never holds more than 4 bytes; a byte that
  is complete when nbytes is 4 or more is dropped, not buffered (the buffer is left as
  it is), while nbytes itself is still incremented for it, and so does exceed 4.
\<close>

theorem overflow_bytes_dropped:
  assumes "0 \<le> sint (nbytes d)"
  shows "(\<forall>i. message (readBit val d) i \<noteq> message d i \<longrightarrow>
              i = sint (nbytes d) \<and> 0 \<le> i \<and> i < 4)
       \<and> (4 \<le> sint (nbytes d) \<longrightarrow>
            message (readBit val d) = message d
            \<and> (nbits d = 7 \<and> push_bit 1 (hexbyte d) OR (if val then 1 else 0) \<noteq> 0xd
                 \<and> message_waiting d = 0 \<longrightarrow> nbytes (readBit val d) = nbytes d + 1))"
proof -
  have a: "\<forall>i. message (readBit val d) i \<noteq> message d i \<longrightarrow>
                i = sint (nbytes d) \<and> 0 \<le> i \<and> i < 4"
    using readBit_message_cases [of val d] assms by (auto split: if_splits)
  have b: "4 \<le> sint (nbytes d) \<longrightarrow> message (readBit val d) = message d"
    using readBit_message_cases [of val d] by auto
  have c: "4 \<le> sint (nbytes d) \<longrightarrow>
             nbits d = 7 \<and> push_bit 1 (hexbyte d) OR (if val then 1 else 0) \<noteq> 0xd
               \<and> message_waiting d = 0 \<longrightarrow> nbytes (readBit val d) = nbytes d + 1"
    by (simp add: readBit_def Let_def)
  from a b c show ?thesis by blast
qed

theorem overflow_bytes_dropped_witness:
  "0 \<le> sint (nbytes sensor_full_buffer) \<and> 4 \<le> sint (nbytes sensor_full_buffer)
   \<and> nbits sensor_full_buffer = 7
   \<and> push_bit 1 (hexbyte sensor_full_buffer) OR (if True then 1 else 0) \<noteq> 0xd
   \<and> message_waiting sensor_full_buffer = 0
   \<and> message (readBit True sensor_full_buffer) = message sensor_full_buffer
   \<and> nbytes (readBit True sensor_full_buffer) = 5"
  using overflow_bytes_dropped [of sensor_full_buffer True]
  by (simp add: sensor_full_buffer_def sensor_init_def)

subsection \<open>The main loop\<close>

text \<open>The interrupt routine does not touch the timeout counter.\<close>

lemma readBit_timeouts: "consectutive_timeouts (readBit v d) = consectutive_timeouts d"
  by (simp add: readBit_def Let_def)

lemma pid_tick_timeouts:
  "consectutive_timeouts (sensor (pid_tick m1 m2 g)) = consectutive_timeouts (sensor g)"
  by (simp add: pid_tick_def Let_def getFreshTemp_def split: prod.splits)

lemma safety_override_timeouts:
  "consectutive_timeouts (sensor (safety_override g)) = consectutive_timeouts (sensor g)"
  by (simp add: safety_override_def)

lemma safety_override_heatcycles:
  "consectutive_timeouts (sensor g) > 20 \<Longrightarrow>
     heatcycles (heater (safety_override g)) = Fin 0"
  by (simp add: safety_override_def setHeatPowerPercentage_zero)

text \<open>
  The counter that the safety test of line 716 reads is the one that updateTempSensor
  has left in this pass: nothing after it in the pass changes the counter.
\<close>

lemma loop_timeouts:
  "consectutive_timeouts (sensor (loop k input g)) =
     consectutive_timeouts
       (updateTempSensor (at_sensor1 k) (at_sensor2 k) (at_sensor3 k)
          (sensor (updateSerialInterface (at_serial1 k) (at_serial2 k) input
             (g\<lparr>epoch := at_epoch k div 1000\<rparr>))))"
  by (simp add: loop_def Let_def safety_override_timeouts pid_tick_timeouts)

lemma loop_heatPower:
  "heatPower (loop k input g) =
     heatPower (pid_tick (at_pid1 k) (at_pid2 k)
       ((updateSerialInterface (at_serial1 k) (at_serial2 k) input
           (g\<lparr>epoch := at_epoch k div 1000\<rparr>))
         \<lparr>sensor := updateTempSensor (at_sensor1 k) (at_sensor2 k) (at_sensor3 k)
            (sensor (updateSerialInterface (at_serial1 k) (at_serial2 k) input
               (g\<lparr>epoch := at_epoch k div 1000\<rparr>)))\<rparr>))"
  by (simp add: loop_def Let_def safety_override_def)

text \<open>
  Claim C4. In every pass of the main loop in which the consecutive-timeout counter
  exceeds 20 (it is 21 or more when line 716 tests it), the heater power command applied
  in that pass is 0, whatever power the PID update computed in the same pass: updateHeater
  runs with heatcycles at 0 and leaves the output off.
\<close>

theorem timeout_override_forces_zero_power:
  assumes "consectutive_timeouts (sensor (loop k input g)) > 20"
  shows "heatcycles (heater (loop k input g)) = Fin 0
         \<and> heaterState (heater (loop k input g)) = False"
proof -
  define g4 where "g4 = pid_tick (at_pid1 k) (at_pid2 k)
     ((updateSerialInterface (at_serial1 k) (at_serial2 k) input
         (g\<lparr>epoch := at_epoch k div 1000\<rparr>))
        \<lparr>sensor := updateTempSensor (at_sensor1 k) (at_sensor2 k) (at_sensor3 k)
           (sensor (updateSerialInterface (at_serial1 k) (at_serial2 k) input
              (g\<lparr>epoch := at_epoch k div 1000\<rparr>)))\<rparr>)"
  have l: "loop k input g =
             (safety_override g4)\<lparr>heater :=
                updateHeater (at_heater k) (heater (safety_override g4))\<rparr>"
    by (simp add: loop_def Let_def g4_def)
  have "consectutive_timeouts (sensor g4) > 20"
    using assms by (simp add: l safety_override_timeouts)
  then have z: "heatcycles (heater (safety_override g4)) = Fin 0"
    by (rule safety_override_heatcycles)
  then have "heaterState (updateHeater (at_heater k) (heater (safety_override g4))) = False"
    by (intro updateHeater_off) simp
  with z show ?thesis by (simp add: l updateHeater_heatcycles)
qed

text \<open>
  In the example the PID update is due in the pass and computes the power
  30 * (200 - 25) = 5250, which the override replaces by 0.
\<close>

lemma silent_serial:
  "updateSerialInterface 1000 1000 [] (globals_silent\<lparr>epoch := 1\<rparr>) =
     globals_silent\<lparr>epoch := 1, serial := serial_init\<lparr>lastUpdateTime := 200\<rparr>\<rparr>"
  by (simp add: updateSerialInterface_def Let_def globals_silent_def AUTO_PRINT_INTERVAL_def
        serial_init_def)

lemma silent_sensor:
  "updateTempSensor 1000 1000 1000 (sensor_init\<lparr>temp := 25.0, consectutive_timeouts := 21\<rparr>) =
     sensor_init\<lparr>temp := 25.0, consectutive_timeouts := 21, tcSum := 25.0, readCount := 1\<rparr>"
  by (simp add: updateTempSensor_def Let_def sensor_init_def)

lemma silent_timeouts: "consectutive_timeouts (sensor (loop clock_1000 [] globals_silent)) = 21"
proof -
  have "consectutive_timeouts (sensor (loop clock_1000 [] globals_silent)) =
          consectutive_timeouts (updateTempSensor 1000 1000 1000
            (sensor (updateSerialInterface 1000 1000 [] (globals_silent\<lparr>epoch := 1\<rparr>))))"
    by (simp add: loop_timeouts clock_1000_def)
  also have "\<dots> = consectutive_timeouts (updateTempSensor 1000 1000 1000
                     (sensor_init\<lparr>temp := 25.0, consectutive_timeouts := 21\<rparr>))"
    by (simp only: silent_serial) (simp add: globals_silent_def)
  also have "\<dots> = 21"
    by (simp only: silent_sensor) simp
  finally show ?thesis .
qed

lemma silent_updatePID: "returned (updatePID pid_reset (Fin 200) (Fin 25)) = Fin 5250"
  by (simp add: updatePID_def Let_def windup_clamp_def float_defs WINDUP_GUARD_GAIN_def
        pid_reset_def)

lemma silent_heatPower: "heatPower (loop clock_1000 [] globals_silent) = Fin 5250"
proof -
  have "heatPower (loop clock_1000 [] globals_silent) =
          heatPower (pid_tick 1000 1000
            ((updateSerialInterface 1000 1000 [] (globals_silent\<lparr>epoch := 1\<rparr>))
               \<lparr>sensor := updateTempSensor 1000 1000 1000
                  (sensor (updateSerialInterface 1000 1000 [] (globals_silent\<lparr>epoch := 1\<rparr>)))\<rparr>))"
    by (simp add: loop_heatPower clock_1000_def)
  also have "\<dots> = heatPower (pid_tick 1000 1000
            (globals_silent\<lparr>epoch := 1, serial := serial_init\<lparr>lastUpdateTime := 200\<rparr>,
               sensor := updateTempSensor 1000 1000 1000
                  (sensor_init\<lparr>temp := 25.0, consectutive_timeouts := 21\<rparr>)\<rparr>))"
    by (simp only: silent_serial) (simp add: globals_silent_def)
  also have "\<dots> = Fin 5250"
    by (simp only: silent_sensor)
       (simp add: pid_tick_def Let_def getFreshTemp_def globals_silent_def sensor_init_def
          PID_UPDATE_INTERVAL_def silent_updatePID split: prod.splits)
  finally show ?thesis .
qed

theorem timeout_override_forces_zero_power_witness:
  "consectutive_timeouts (sensor (loop clock_1000 [] globals_silent)) > 20
   \<and> heatPower (loop clock_1000 [] globals_silent) = Fin 5250
   \<and> heatcycles (heater (loop clock_1000 [] globals_silent)) = Fin 0
   \<and> heaterState (heater (loop clock_1000 [] globals_silent)) = False"
  using timeout_override_forces_zero_power [of clock_1000 "[]" globals_silent]
  by (simp add: silent_timeouts silent_heatPower)

end
